theory Spec2Isabelle
  imports Complex_Main "HOL-Library.Char_ord" "HOL-Library.List_Lexorder"
begin

section \<open>Dividend Hunter: metrics, ranking, snapshot cache\<close>

text \<open>
  The model follows \<^verbatim>\<open>src/main.py\<close>. A Python \<^verbatim>\<open>float\<close> is read as the real
  number it denotes and float arithmetic as exact arithmetic on the reals (NaN,
  infinities and binary rounding are outside the model); a Python \<^verbatim>\<open>int\<close> is an
  \<^typ>\<open>int\<close>.
\<close>

subsection \<open>Scoring engine\<close>

text \<open>
  \<^verbatim>\<open>calculate_safety_score\<close>: the running variable \<^verbatim>\<open>score\<close> starts at 50 and is
  updated by four \<^verbatim>\<open>if/elif\<close> chains, one after the other; the last line clamps it.
\<close>

definition payout_step :: "real \<Rightarrow> int \<Rightarrow> int" where
  "payout_step payout_ratio score =
     (if payout_ratio = 0 then score + 0
      else if payout_ratio < 30 then score + 25
      else if payout_ratio < 50 then score + 40
      else if payout_ratio < 70 then score + 30
      else if payout_ratio < 90 then score + 15
      else score - 10)"

definition years_step :: "int \<Rightarrow> int \<Rightarrow> int" where
  "years_step consecutive_years score =
     (if consecutive_years \<ge> 25 then score + 30
      else if consecutive_years \<ge> 10 then score + 20
      else if consecutive_years \<ge> 5 then score + 10
      else if consecutive_years \<ge> 2 then score + 5
      else score)"

definition growth_step :: "real \<Rightarrow> int \<Rightarrow> int" where
  "growth_step growth_rate score =
     (if growth_rate > 10 then score + 20
      else if growth_rate > 5 then score + 15
      else if growth_rate > 0 then score + 10
      else if growth_rate > - 5 then score + 0
      else score - 10)"

definition yield_step :: "real \<Rightarrow> int \<Rightarrow> int" where
  "yield_step dividend_yield score =
     (if dividend_yield > 10 / 100 then score - 15
      else if dividend_yield > 8 / 100 then score - 5
      else score)"

definition calculate_safety_score :: "real \<Rightarrow> int \<Rightarrow> real \<Rightarrow> real \<Rightarrow> int" where
  "calculate_safety_score payout_ratio consecutive_years growth_rate dividend_yield =
     (let score = 50;
          score = payout_step payout_ratio score;
          score = years_step consecutive_years score;
          score = growth_step growth_rate score;
          score = yield_step dividend_yield score
      in max 0 (min 100 score))"


text \<open>
  \<^verbatim>\<open>calculate_rank_score\<close>: three normalised factors and the safety score, weighted.
\<close>

definition calculate_rank_score :: "real \<Rightarrow> real \<Rightarrow> int \<Rightarrow> int \<Rightarrow> real" where
  "calculate_rank_score dividend_yield growth_rate safety_score consecutive_years =
     (let yield_score = min (dividend_yield * 100 * 10) 100;
          growth_score = min (max (growth_rate + 10) 0 * 5) 100;
          track_score = min (consecutive_years * 4) 100;
          rank = yield_score * (35 / 100) + growth_score * (25 / 100)
                 + real_of_int safety_score * (25 / 100)
                 + real_of_int track_score * (15 / 100)
      in rank)"

subsection \<open>Dividend history analyzer\<close>

text \<open>
  A dividend series (\<^verbatim>\<open>pd.Series\<close> with a date index) is the list of its
  (date, amount) entries in the order of the series.
\<close>

record caldate =
  year :: int
  month :: int
  day :: int

type_synonym series = "(caldate \<times> real) list"

text \<open>\<^verbatim>\<open>s.tail(n)\<close>, also the slice \<^verbatim>\<open>xs[-n:]\<close> for a positive \<open>n\<close>: the last \<open>n\<close> entries.\<close>

definition tail :: "nat \<Rightarrow> 'a list \<Rightarrow> 'a list" where
  "tail n xs = drop (length xs - n) xs"

text \<open>
  \<^verbatim>\<open>dividends.groupby(dividends.index.year).sum()\<close>: one entry per distinct year, in
  ascending order of the year, holding the sum of that year's amounts.
\<close>

definition dividends_by_year :: "series \<Rightarrow> (int \<times> real) list" where
  "dividends_by_year dividends =
     map (\<lambda>y. (y, sum_list (map snd (filter (\<lambda>e. year (fst e) = y) dividends))))
       (sort (remdups (map (\<lambda>e. year (fst e)) dividends)))"



text \<open>
  \<^verbatim>\<open>calculate_consecutive_years\<close>. The loop over \<^verbatim>\<open>enumerate(years_list)\<close> sets
  the counter to 1 at index 0; \<open>streak_loop\<close> is the loop from index 1 on, carrying the
  previous year \<^verbatim>\<open>years_list[i-1]\<close> and the counter, and \<^verbatim>\<open>break\<close> returns the counter.
\<close>

fun streak_loop :: "int \<Rightarrow> int \<Rightarrow> int list \<Rightarrow> int" where
  "streak_loop prev consecutive [] = consecutive"
| "streak_loop prev consecutive (yr # rest) =
     (if prev - yr = 1 then streak_loop yr (consecutive + 1) rest else consecutive)"

definition calculate_consecutive_years :: "series \<Rightarrow> int" where
  "calculate_consecutive_years dividends =
     (if dividends = [] then 0
      else
        let years_with_dividends = dividends_by_year dividends;
            years_list = rev (sort (map fst years_with_dividends))
        in case years_list of
             [] \<Rightarrow> 0
           | yr # rest \<Rightarrow> streak_loop yr 1 rest)"

text \<open>
  The stored history of \<^verbatim>\<open>calculate_dividend_metrics\<close>: the list comprehension over
  \<^verbatim>\<open>dividends.tail(400).items()\<close>, one \<^verbatim>\<open>{date, amount}\<close> entry per item, in the
  order of the items.
\<close>

record dividend_event =
  date :: caldate
  amount :: real

definition dividend_history :: "series \<Rightarrow> dividend_event list" where
  "dividend_history dividends =
     map (\<lambda>(d, a). \<lparr>date = d, amount = a\<rparr>) (tail 400 dividends)"

subsection \<open>Stock records, snapshot and historical store\<close>

text \<open>
  A stock is the \<^verbatim>\<open>dict\<close> that \<^verbatim>\<open>calculate_dividend_metrics\<close> returns and that the
  snapshot file holds: a map from field names to values. The values of the model are
  \<^verbatim>\<open>None\<close>, numbers and strings; the list under \<^verbatim>\<open>dividendHistory\<close> is built by
  \<open>dividend_history\<close> above and is not a value of the map. A time stamp
  (\<^verbatim>\<open>datetime\<close>) is a number of microseconds, which \<^verbatim>\<open>isoformat\<close> and
  \<^verbatim>\<open>fromisoformat\<close> write and read back unchanged.
\<close>

datatype py_error = KeyError | TypeError | AttributeError

datatype pyvalue = VNone | VNum real | VStr string

type_synonym stock = "string \<rightharpoonup> pyvalue"

record snapshot =
  fetchedAt :: int
  stocks :: "stock list"

text \<open>
  The historical file maps a ticker to its list of points; a point is the \<^verbatim>\<open>dict\<close>
  with the keys \<^verbatim>\<open>date\<close>, \<^verbatim>\<open>yield\<close>, \<^verbatim>\<open>price\<close>, \<^verbatim>\<open>growthRate\<close>,
  \<^verbatim>\<open>safetyScore\<close>. The two files are the persistent state; \<open>None\<close> is a file that
  does not exist.
\<close>

type_synonym historical = "pyvalue \<rightharpoonup> stock list"

record store =
  snapshot_file :: "snapshot option"
  historical_file :: "historical option"

definition load_historical_data :: "store \<Rightarrow> historical" where
  "load_historical_data st =
     (case historical_file st of Some data \<Rightarrow> data | None \<Rightarrow> Map.empty)"

definition save_historical_data :: "historical \<Rightarrow> store \<Rightarrow> store" where
  "save_historical_data data st = st\<lparr>historical_file := Some data\<rparr>"

definition history_point ::
  "string \<Rightarrow> pyvalue \<Rightarrow> pyvalue \<Rightarrow> pyvalue \<Rightarrow> pyvalue \<Rightarrow> stock" where
  "history_point today y p g sc =
     [''date'' \<mapsto> VStr today, ''yield'' \<mapsto> y, ''price'' \<mapsto> p,
      ''growthRate'' \<mapsto> g, ''safetyScore'' \<mapsto> sc]"

text \<open>
  The \<^verbatim>\<open>for stock in stocks\<close> loop of \<^verbatim>\<open>save_snapshot\<close>. A subscript
  \<^verbatim>\<open>stock["..."]\<close> on a missing key raises \<^verbatim>\<open>KeyError\<close>. The entry of the ticker
  is created empty when missing, extended by today's point and cut to its last 30.
\<close>

fun append_points :: "string \<Rightarrow> stock list \<Rightarrow> historical \<Rightarrow> py_error + historical" where
  "append_points today [] historical = Inr historical"
| "append_points today (stock # rest) historical =
     (case stock ''ticker'' of
        None \<Rightarrow> Inl KeyError
      | Some ticker \<Rightarrow>
          let historical =
                (if historical ticker = None then historical(ticker \<mapsto> []) else historical)
          in (case (stock ''dividendYield'', stock ''price'', stock ''growthRate'',
                    stock ''safetyScore'') of
                (Some y, Some p, Some g, Some sc) \<Rightarrow>
                  let entry = (case historical ticker of Some l \<Rightarrow> l | None \<Rightarrow> []);
                      historical = historical(ticker \<mapsto> entry @ [history_point today y p g sc]);
                      entry = (case historical ticker of Some l \<Rightarrow> l | None \<Rightarrow> []);
                      historical = historical(ticker \<mapsto> tail 30 entry)
                  in append_points today rest historical
              | _ \<Rightarrow> Inl KeyError))"

text \<open>
  \<^verbatim>\<open>save_snapshot\<close>: the snapshot file is written first, then the historical data is
  loaded, extended and saved. \<open>now\<close> and \<open>today\<close> are the two readings of the clock.
  An exception leaves the store as it is at that point (\<open>Inl\<close>).
\<close>

definition save_snapshot ::
  "int \<Rightarrow> string \<Rightarrow> stock list \<Rightarrow> store \<Rightarrow> (py_error \<times> store) + store" where
  "save_snapshot now today stocks_list st =
     (let snapshot = \<lparr>fetchedAt = now, stocks = stocks_list\<rparr>;
          st = st\<lparr>snapshot_file := Some snapshot\<rparr>;
          historical = load_historical_data st
      in case append_points today stocks_list historical of
           Inl e \<Rightarrow> Inl (e, st)
         | Inr historical \<Rightarrow> Inr (save_historical_data historical st))"

definition hours24 :: int where
  "hours24 = 24 * 60 * 60 * 1000000"

definition load_cached_snapshot :: "int \<Rightarrow> store \<Rightarrow> snapshot option" where
  "load_cached_snapshot now st =
     (case snapshot_file st of
        None \<Rightarrow> None
      | Some snapshot \<Rightarrow>
          if now - fetchedAt snapshot < hours24 then Some snapshot else None)"

subsection \<open>Refresh orchestrator\<close>

definition SP500_TICKERS :: "string list" where
  "SP500_TICKERS =
    [''AAPL'', ''MSFT'', ''AMZN'', ''NVDA'', ''GOOGL'', ''META'', ''GOOG'', ''BRK.B'', ''LLY'', ''AVGO'',
     ''JPM'', ''V'', ''UNH'', ''XOM'', ''TSLA'', ''MA'', ''JNJ'', ''PG'', ''COST'', ''HD'',
     ''MRK'', ''ABBV'', ''CVX'', ''CRM'', ''BAC'', ''AMD'', ''KO'', ''NFLX'', ''PEP'', ''WMT'',
     ''TMO'', ''ADBE'', ''LIN'', ''ACN'', ''MCD'', ''DIS'', ''CSCO'', ''ABT'', ''WFC'', ''PM'',
     ''DHR'', ''QCOM'', ''CAT'', ''VZ'', ''INTC'', ''INTU'', ''TXN'', ''IBM'', ''GE'', ''CMCSA'',
     ''NEE'', ''AMGN'', ''PFE'', ''AMAT'', ''NOW'', ''ISRG'', ''UNP'', ''RTX'', ''SPGI'', ''GS'',
     ''HON'', ''LOW'', ''BKNG'', ''BLK'', ''T'', ''ELV'', ''AXP'', ''COP'', ''PLD'', ''VRTX'',
     ''SYK'', ''C'', ''ETN'', ''MDLZ'', ''TJX'', ''PANW'', ''BSX'', ''SCHW'', ''MMC'', ''ADP'',
     ''ADI'', ''SBUX'', ''LRCX'', ''GILD'', ''MO'', ''CB'', ''FI'', ''BMY'', ''DE'', ''TMUS'',
     ''CVS'', ''CI'', ''SO'', ''CME'', ''ZTS'', ''DUK'', ''BDX'', ''REGN'', ''CL'', ''EOG'',
     ''PGR'', ''SLB'', ''EQIX'', ''ITW'', ''SNPS'', ''APD'', ''NOC'', ''MCK'', ''ICE'', ''MU'',
     ''PNC'', ''CSX'', ''CDNS'', ''TT'', ''AON'', ''PYPL'', ''SHW'', ''WM'', ''USB'', ''ORLY'',
     ''FCX'', ''PSX'', ''MSI'', ''EMR'', ''MCO'', ''CTAS'', ''CMG'', ''MMM'', ''GD'', ''OXY'',
     ''HLT'', ''NSC'', ''CCI'', ''HUM'', ''KLAC'', ''PH'', ''MAR'', ''APH'', ''PCAR'', ''AJG'',
     ''ROP'', ''AZO'', ''CARR'', ''TDG'', ''NEM'', ''AEP'', ''ECL'', ''TRV'', ''WELL'', ''SPG'',
     ''AFL'', ''SRE'', ''MCHP'', ''PSA'', ''FTNT'', ''MET'', ''HES'', ''EW'', ''F'', ''O'',
     ''COF'', ''TEL'', ''AIG'', ''KMB'', ''MSCI'', ''D'', ''NUE'', ''PAYX'', ''KMI'', ''CNC'',
     ''BK'', ''ROST'', ''AMP'', ''NXPI'', ''JCI'', ''ALL'', ''MNST'', ''DLR'', ''GWW'', ''FDX'',
     ''OKE'', ''PRU'', ''IDXX'', ''LHX'', ''IQV'', ''PEG'', ''DHI'', ''A'', ''PCG'', ''VLO'',
     ''KR'', ''CTSH'', ''KDP'', ''OTIS'', ''GM'', ''STZ'', ''CMI'', ''FAST'', ''GEHC'', ''RSG'',
     ''YUM'', ''AME'', ''ODFL'', ''CPRT'', ''EA'', ''HWM'', ''XEL'', ''GIS'', ''VRSK'', ''PWR'',
     ''FANG'', ''WEC'', ''EXC'', ''BKR'', ''BIIB'', ''IT'', ''CBRE'', ''DD'', ''CTVA'', ''VICI'',
     ''HPQ'', ''EXR'', ''VMC'', ''ED'', ''EFX'', ''MLM'', ''ACGL'', ''DXCM'', ''ON'', ''WAB'',
     ''RCL'', ''AVB'', ''ANSS'', ''DG'', ''EBAY'', ''HAL'', ''CAH'', ''AWK'', ''RMD'', ''XYL'',
     ''HIG'', ''WTW'', ''KEYS'', ''EIX'', ''GRMN'', ''LULU'', ''DAL'', ''KHC'', ''DVN'', ''TTWO'',
     ''MTD'', ''HPE'', ''DOW'', ''ROK'', ''WMB'', ''PPG'', ''WBD'', ''GPN'', ''IFF'', ''CHD'',
     ''CSGP'', ''CDW'', ''TSCO'', ''URI'', ''DLTR'', ''APTV'', ''ETR'', ''EQR'', ''FTV'', ''TROW'',
     ''NVR'', ''ULTA'', ''SBAC'', ''STT'', ''HSY'', ''BR'', ''ILMN'', ''DTE'', ''MTB'', ''SYY'',
     ''FITB'', ''TYL'', ''DOV'', ''MOH'', ''PPL'', ''ZBH'', ''AEE'', ''FE'', ''RF'', ''CLX'',
     ''K'', ''LYB'', ''NTAP'', ''ES'', ''LVS'', ''IRM'', ''ATO'', ''DRI'', ''MKC'', ''VLTO'',
     ''STLD'', ''HBAN'', ''TDY'', ''SW'', ''BALL'', ''CBOE'', ''WAT'', ''WRB'', ''LH'', ''NTRS'',
     ''NRG'', ''ALGN'', ''HOLX'', ''COO'', ''BAX'', ''EXPD'', ''DGX'', ''WDC'', ''CNP'', ''GPC'',
     ''STE'', ''MAA'', ''PKG'', ''J'', ''CF'', ''STX'', ''LDOS'', ''PFG'', ''TRGP'', ''BBY'',
     ''ESS'', ''FDS'', ''SYF'', ''CINF'', ''OMC'', ''NI'', ''ARE'', ''PTC'', ''VRSN'', ''MAS'',
     ''CMS'', ''JBHT'', ''IP'', ''TSN'', ''LUV'', ''ZBRA'', ''KEY'', ''TXT'', ''AMCR'', ''EG'',
     ''CFG'', ''DPZ'', ''L'', ''AES'', ''HUBB'', ''EVRG'', ''POOL'', ''AKAM'', ''GEN'', ''KIM'',
     ''SWK'', ''AVY'', ''RVTY'', ''BRO'', ''LKQ'', ''UDR'', ''SWKS'', ''EMN'', ''CE'', ''CAG'',
     ''TECH'', ''LNT'', ''CPT'', ''JKHY'', ''HST'', ''APA'', ''REG'', ''TPR'', ''SNA'', ''ALB'',
     ''IPG'', ''WRK'', ''TAP'', ''GL'', ''CPB'', ''CHRW'', ''BXP'', ''NDAQ'', ''ALLE'', ''AIZ'',
     ''BG'', ''HSIC'', ''WYNN'', ''FFIV'', ''PNR'', ''ROL'', ''INCY'', ''MGM'', ''MOS'', ''MKTX'',
     ''CRL'', ''HRL'', ''IEX'', ''VTRS'', ''BWA'', ''QRVO'', ''BBWI'', ''PAYC'', ''NDSN'', ''MTCH'',
     ''ETSY'', ''WBA'', ''PARA'', ''AAL'', ''HAS'', ''FRT'', ''RHI'', ''GNRC'', ''BIO'', ''CZR'',
     ''CTLT'', ''VFC'', ''PNW'', ''WHR'', ''ZION'', ''XRAY'', ''NWS'', ''SEE'', ''HII'', ''FMC'',
     ''NWSA'', ''DVA'', ''MHK'', ''IVZ'', ''LUMN'']"

definition batch_size :: nat where
  "batch_size = 20"

text \<open>
  The loop \<^verbatim>\<open>for i in range(0, len(SP500_TICKERS), batch_size)\<close> of
  \<^verbatim>\<open>refresh_data_background\<close>. \<open>fetch\<close> is \<^verbatim>\<open>calculate_dividend_metrics\<close>, the call
  to the market data provider: \<open>None\<close> when the ticker pays no dividend or the call
  fails. The results of a batch that are not \<open>None\<close> extend \<^verbatim>\<open>all_stocks\<close>. The pause
  between batches has no effect on the state.
\<close>

function fetch_batches ::
  "(string \<Rightarrow> stock option) \<Rightarrow> string list \<Rightarrow> nat \<Rightarrow> stock list \<Rightarrow> stock list" where
  "fetch_batches fetch tickers i all_stocks =
     (if i < length tickers then
        let batch = take batch_size (drop i tickers);
            results = map fetch batch;
            valid_results = List.map_filter (\<lambda>r. r) results
        in fetch_batches fetch tickers (i + batch_size) (all_stocks @ valid_results)
      else all_stocks)"
  by pat_completeness auto
termination
  by (relation "measure (\<lambda>(fetch, tickers, i, all_stocks). length tickers - i)")
    (auto simp: batch_size_def)

declare fetch_batches.simps [simp del]

text \<open>
  \<^verbatim>\<open>refresh_data_background\<close> as the background task runs it
  (\<^verbatim>\<open>return_data\<close> false): the snapshot is saved only when \<^verbatim>\<open>all_stocks\<close> is not
  empty.
\<close>

definition refresh_data_background ::
  "(string \<Rightarrow> stock option) \<Rightarrow> int \<Rightarrow> string \<Rightarrow> store \<Rightarrow> (py_error \<times> store) + store" where
  "refresh_data_background fetch now today st =
     (let all_stocks = fetch_batches fetch SP500_TICKERS 0 [] in
      if all_stocks \<noteq> [] then save_snapshot now today all_stocks st
      else Inr st)"

subsection \<open>Read path\<close>

text \<open>The parameters of \<^verbatim>\<open>/api/stocks\<close> that reach \<^verbatim>\<open>apply_filters_and_sort\<close>.\<close>

record query =
  category :: "string option"
  min_yield :: "real option"
  max_yield :: "real option"
  min_safety :: "int option"
  sector :: "string option"
  sort_by :: string
  limit :: int

record response =
  resp_stocks :: "stock list"
  resp_total :: nat
  resp_fetchedAt :: "int option"
  resp_status :: "string option"

text \<open>
  A list comprehension with a condition that may raise: the first exception ends it.
\<close>

fun filter_raising :: "('a \<Rightarrow> py_error + bool) \<Rightarrow> 'a list \<Rightarrow> py_error + 'a list" where
  "filter_raising c [] = Inr []"
| "filter_raising c (x # xs) =
     (case c x of
        Inl e \<Rightarrow> Inl e
      | Inr b \<Rightarrow>
          (case filter_raising c xs of
             Inl e \<Rightarrow> Inl e
           | Inr ys \<Rightarrow> Inr (if b then x # ys else ys)))"

text \<open>\<^verbatim>\<open>s["category"] == category\<close>: equality of any two values never raises.\<close>

definition category_is :: "string \<Rightarrow> stock \<Rightarrow> py_error + bool" where
  "category_is c s =
     (case s ''category'' of None \<Rightarrow> Inl KeyError | Some v \<Rightarrow> Inr (v = VStr c))"

text \<open>\<^verbatim>\<open>s[field] >= bound\<close> and \<^verbatim>\<open>s[field] <= bound\<close>: a number is compared, \<^verbatim>\<open>None\<close>
  or a string against a number raises \<^verbatim>\<open>TypeError\<close>.\<close>

definition field_at_least :: "string \<Rightarrow> real \<Rightarrow> stock \<Rightarrow> py_error + bool" where
  "field_at_least field bound s =
     (case s field of
        None \<Rightarrow> Inl KeyError
      | Some (VNum v) \<Rightarrow> Inr (v \<ge> bound)
      | Some _ \<Rightarrow> Inl TypeError)"

definition field_at_most :: "string \<Rightarrow> real \<Rightarrow> stock \<Rightarrow> py_error + bool" where
  "field_at_most field bound s =
     (case s field of
        None \<Rightarrow> Inl KeyError
      | Some (VNum v) \<Rightarrow> Inr (v \<le> bound)
      | Some _ \<Rightarrow> Inl TypeError)"

text \<open>\<^verbatim>\<open>str.lower\<close>, on ASCII letters.\<close>

definition lower_char :: "char \<Rightarrow> char" where
  "lower_char c =
     (let n = (of_char c :: nat) in if 65 \<le> n \<and> n \<le> 90 then char_of (n + 32) else c)"

definition lower :: "string \<Rightarrow> string" where
  "lower s = map lower_char s"

definition sector_is :: "string \<Rightarrow> stock \<Rightarrow> py_error + bool" where
  "sector_is sec s =
     (case s ''sector'' of
        None \<Rightarrow> Inl KeyError
      | Some (VStr v) \<Rightarrow> Inr (lower v = lower sec)
      | Some _ \<Rightarrow> Inl AttributeError)"

text \<open>
  The sort key \<^verbatim>\<open>x.get(sort_by, 0) or 0\<close>: the value of the field, and the number 0
  when the field is missing or its value is falsy (\<^verbatim>\<open>None\<close>, zero, the empty string).
\<close>

datatype sort_key = KNum real | KStr string

definition key_of :: "string \<Rightarrow> stock \<Rightarrow> sort_key" where
  "key_of field x =
     (case x field of
        None \<Rightarrow> KNum 0
      | Some VNone \<Rightarrow> KNum 0
      | Some (VNum v) \<Rightarrow> (if v = 0 then KNum 0 else KNum v)
      | Some (VStr v) \<Rightarrow> (if v = [] then KNum 0 else KStr v))"

fun key_is_num :: "sort_key \<Rightarrow> bool" where
  "key_is_num (KNum v) = True"
| "key_is_num (KStr v) = False"

fun num_of :: "sort_key \<Rightarrow> real" where
  "num_of (KNum v) = v"
| "num_of (KStr v) = 0"

fun str_of :: "sort_key \<Rightarrow> string" where
  "str_of (KStr v) = v"
| "str_of (KNum v) = []"

text \<open>
  \<^verbatim>\<open>list.sort(key=..., reverse=...)\<close>. The sort is stable, also with
  \<^verbatim>\<open>reverse=True\<close>: records with equal keys keep their order. Numbers compare with
  numbers and strings with strings; a number against a string raises
  \<^verbatim>\<open>TypeError\<close>, which every sort of a list holding both kinds of key runs into.
\<close>

definition stable_sort :: "('a \<Rightarrow> 'k::linorder) \<Rightarrow> bool \<Rightarrow> 'a list \<Rightarrow> 'a list" where
  "stable_sort k reverse xs =
     (if reverse then rev (sort_key k (rev xs)) else sort_key k xs)"

definition list_sort :: "('a \<Rightarrow> sort_key) \<Rightarrow> bool \<Rightarrow> 'a list \<Rightarrow> py_error + 'a list" where
  "list_sort k reverse xs =
     (if list_all (\<lambda>x. key_is_num (k x)) xs then Inr (stable_sort (\<lambda>x. num_of (k x)) reverse xs)
      else if list_all (\<lambda>x. \<not> key_is_num (k x)) xs
        then Inr (stable_sort (\<lambda>x. str_of (k x)) reverse xs)
      else Inl TypeError)"

text \<open>The slice \<^verbatim>\<open>xs[:n]\<close>; a negative \<open>n\<close> counts from the end.\<close>

definition slice_to :: "int \<Rightarrow> 'a list \<Rightarrow> 'a list" where
  "slice_to n xs = (if 0 \<le> n then take (nat n) xs else take (nat (int (length xs) + n)) xs)"

text \<open>
  \<^verbatim>\<open>apply_filters_and_sort\<close>. A filter is applied when its parameter is truthy
  (\<^verbatim>\<open>category\<close>, \<^verbatim>\<open>sector\<close>) or not \<^verbatim>\<open>None\<close> (the bounds); the five filters
  run in the order of the source, each on the result of the one before, and an
  exception ends the call (\<open>then_do\<close>). \<open>now\<close> is the reading of the clock for the
  \<^verbatim>\<open>fetchedAt\<close> of the response.
\<close>

definition then_do :: "py_error + 'a \<Rightarrow> ('a \<Rightarrow> py_error + 'b) \<Rightarrow> py_error + 'b" where
  "then_do m f = (case m of Inl e \<Rightarrow> Inl e | Inr x \<Rightarrow> f x)"

definition filter_category :: "query \<Rightarrow> stock list \<Rightarrow> py_error + stock list" where
  "filter_category q filtered =
     (case category q of
        Some c \<Rightarrow> if c \<noteq> [] then filter_raising (category_is c) filtered else Inr filtered
      | None \<Rightarrow> Inr filtered)"

definition filter_min_yield :: "query \<Rightarrow> stock list \<Rightarrow> py_error + stock list" where
  "filter_min_yield q filtered =
     (case min_yield q of
        Some m \<Rightarrow> filter_raising (field_at_least ''dividendYield'' m) filtered
      | None \<Rightarrow> Inr filtered)"

definition filter_max_yield :: "query \<Rightarrow> stock list \<Rightarrow> py_error + stock list" where
  "filter_max_yield q filtered =
     (case max_yield q of
        Some m \<Rightarrow> filter_raising (field_at_most ''dividendYield'' m) filtered
      | None \<Rightarrow> Inr filtered)"

definition filter_min_safety :: "query \<Rightarrow> stock list \<Rightarrow> py_error + stock list" where
  "filter_min_safety q filtered =
     (case min_safety q of
        Some m \<Rightarrow> filter_raising (field_at_least ''safetyScore'' (real_of_int m)) filtered
      | None \<Rightarrow> Inr filtered)"

definition filter_sector :: "query \<Rightarrow> stock list \<Rightarrow> py_error + stock list" where
  "filter_sector q filtered =
     (case sector q of
        Some sec \<Rightarrow> if sec \<noteq> [] then filter_raising (sector_is sec) filtered else Inr filtered
      | None \<Rightarrow> Inr filtered)"

definition apply_filters :: "stock list \<Rightarrow> query \<Rightarrow> py_error + stock list" where
  "apply_filters stocks_list q =
     then_do (filter_category q stocks_list) (\<lambda>filtered.
     then_do (filter_min_yield q filtered) (\<lambda>filtered.
     then_do (filter_max_yield q filtered) (\<lambda>filtered.
     then_do (filter_min_safety q filtered) (\<lambda>filtered.
     filter_sector q filtered))))"

definition apply_filters_and_sort ::
  "int \<Rightarrow> stock list \<Rightarrow> query \<Rightarrow> py_error + response" where
  "apply_filters_and_sort now stocks_list q =
     then_do (apply_filters stocks_list q) (\<lambda>filtered.
       let reverse = (sort_by q \<notin> set [''ticker'', ''name'']) in
       then_do (list_sort (key_of (sort_by q)) reverse filtered) (\<lambda>filtered.
         Inr \<lparr>resp_stocks = slice_to (limit q) filtered,
              resp_total = length filtered,
              resp_fetchedAt = Some now,
              resp_status = None\<rparr>))"

text \<open>
  \<^verbatim>\<open>get_dividend_stocks\<close> (\<^verbatim>\<open>/api/stocks\<close>). The result is the response, or
  \<open>None\<close> where the function would run off its end, together with the tasks given to
  \<^verbatim>\<open>background_tasks.add_task\<close>. \<open>t_load\<close> and \<open>t_reply\<close> are the readings of the
  clock in \<^verbatim>\<open>load_cached_snapshot\<close> and in \<^verbatim>\<open>apply_filters_and_sort\<close>.
  A loaded snapshot is a \<^verbatim>\<open>dict\<close> with keys, hence truthy: \<^verbatim>\<open>if cached\<close> tests
  that a snapshot was loaded.
\<close>

datatype task = RefreshDataBackground

definition needs_initialization :: response where
  "needs_initialization =
     \<lparr>resp_stocks = [], resp_total = 0, resp_fetchedAt = None,
      resp_status = Some ''needs_initialization''\<rparr>"

definition get_dividend_stocks ::
  "int \<Rightarrow> int \<Rightarrow> store \<Rightarrow> bool \<Rightarrow> query \<Rightarrow> (py_error + response option) \<times> task list" where
  "get_dividend_stocks t_load t_reply st force_refresh q =
     (let cached = load_cached_snapshot t_load st in
      if cached \<noteq> None \<and> \<not> force_refresh then
        (map_sum id Some (apply_filters_and_sort t_reply (stocks (the cached)) q), [])
      else if cached = None then
        (Inr (Some needs_initialization), [])
      else if force_refresh then
        (map_sum id Some (apply_filters_and_sort t_reply (stocks (the cached)) q),
         [RefreshDataBackground])
      else (Inr None, []))"

subsection \<open>The specification's wording\<close>

text \<open>The four tables of the specification (section 4.2), each as an adjustment.\<close>

definition payout_adjustment :: "real \<Rightarrow> int" where
  "payout_adjustment p =
     (if p = 0 then 0
      else if p < 30 then 25
      else if 30 \<le> p \<and> p < 50 then 40
      else if 50 \<le> p \<and> p < 70 then 30
      else if 70 \<le> p \<and> p < 90 then 15
      else - 10)"

definition years_adjustment :: "int \<Rightarrow> int" where
  "years_adjustment y =
     (if y \<ge> 25 then 30 else if y \<ge> 10 then 20 else if y \<ge> 5 then 10
      else if y \<ge> 2 then 5 else 0)"

definition growth_adjustment :: "real \<Rightarrow> int" where
  "growth_adjustment g =
     (if g > 10 then 20 else if g > 5 then 15 else if g > 0 then 10
      else if g > - 5 then 0 else - 10)"

definition yield_adjustment :: "real \<Rightarrow> int" where
  "yield_adjustment y = (if y > 10 / 100 then - 15 else if y > 8 / 100 then - 5 else 0)"

definition clamp_score :: "int \<Rightarrow> int" where
  "clamp_score s = (if s < 0 then 0 else if s > 100 then 100 else s)"

definition safety_score_spec :: "real \<Rightarrow> int \<Rightarrow> real \<Rightarrow> real \<Rightarrow> int" where
  "safety_score_spec p y g d =
     clamp_score (50 + payout_adjustment p + years_adjustment y
                     + growth_adjustment g + yield_adjustment d)"


text \<open>The rank score of section 4.2: the weighted sum of the three normalised scores
  and the safety score, with no clamp.\<close>

definition rank_score_spec :: "real \<Rightarrow> real \<Rightarrow> int \<Rightarrow> int \<Rightarrow> real" where
  "rank_score_spec yieldFraction growthRate safetyScore consecutiveYears =
     (35 / 100) * min (yieldFraction * 1000) 100
     + (25 / 100) * min (max (growthRate + 10) 0 * 5) 100
     + (25 / 100) * real_of_int safetyScore
     + (15 / 100) * min (real_of_int consecutiveYears * 4) 100"

text \<open>The calendar years with a payment, and the sum of the payments of a year.\<close>

definition payment_years :: "series \<Rightarrow> int set" where
  "payment_years dividends = (\<lambda>e. year (fst e)) ` set dividends"


text \<open>
  Consecutive years (section 4.1): the length of the longest run of years with a
  payment that starts at the most recent such year and goes down one year at a time.
  A run of length \<open>k\<close> is the years \<open>m, m - 1, ..., m - (k - 1)\<close>; the longest one ends
  just before the first missing year, so its length is the least \<open>k\<close> with no payment
  in year \<open>m - k\<close>.
\<close>

definition consecutive_years_spec :: "series \<Rightarrow> int" where
  "consecutive_years_spec dividends =
     (if dividends = [] then 0
      else int (LEAST k. Max (payment_years dividends) - int k \<notin> payment_years dividends))"



text \<open>Orders of dates, of a series and of a stored history.\<close>

definition date_le :: "caldate \<Rightarrow> caldate \<Rightarrow> bool" where
  "date_le a b =
     (year a < year b
      \<or> (year a = year b \<and> (month a < month b \<or> (month a = month b \<and> day a \<le> day b))))"

definition ascending_by_date :: "series \<Rightarrow> bool" where
  "ascending_by_date dividends = sorted_wrt (\<lambda>a b. date_le (fst a) (fst b)) dividends"

definition most_recent_first :: "dividend_event list \<Rightarrow> bool" where
  "most_recent_first history = sorted_wrt (\<lambda>a b. date_le (date b) (date a)) history"

definition oldest_first :: "dividend_event list \<Rightarrow> bool" where
  "oldest_first history = sorted_wrt (\<lambda>a b. date_le (date a) (date b)) history"

text \<open>Sample series: one payment of the given amount on the first of January.\<close>

definition payment :: "int \<Rightarrow> real \<Rightarrow> caldate \<times> real" where
  "payment y a = (\<lparr>year = y, month = 1, day = 1\<rparr>, a)"




definition usable :: "int \<Rightarrow> store \<Rightarrow> bool" where
  "usable now st =
     (case snapshot_file st of None \<Rightarrow> False | Some snap \<Rightarrow> now - fetchedAt snap < hours24)"

text \<open>Sample query and stores.\<close>

definition plain_query :: query where
  "plain_query = \<lparr>category = None, min_yield = None, max_yield = None, min_safety = None,
     sector = None, sort_by = ''rankScore'', limit = 100\<rparr>"


definition old_store :: store where
  "old_store = \<lparr>snapshot_file = Some \<lparr>fetchedAt = 0, stocks = []\<rparr>, historical_file = None\<rparr>"

definition day_old_store :: store where
  "day_old_store =
     \<lparr>snapshot_file = Some \<lparr>fetchedAt = 1000, stocks = []\<rparr>, historical_file = None\<rparr>"


text \<open>
  What \<^verbatim>\<open>calculate_dividend_metrics\<close> returns for a ticker, when it returns a
  record: the \<^verbatim>\<open>dict\<close> literal at the end of the function, which holds the ticker it
  was called with under \<^verbatim>\<open>ticker\<close> and has the keys \<^verbatim>\<open>dividendYield\<close>,
  \<^verbatim>\<open>price\<close>, \<^verbatim>\<open>growthRate\<close> and \<^verbatim>\<open>safetyScore\<close>.
\<close>

definition well_formed :: "string \<Rightarrow> stock \<Rightarrow> bool" where
  "well_formed t s =
     (s ''ticker'' = Some (VStr t) \<and> s ''dividendYield'' \<noteq> None \<and> s ''price'' \<noteq> None
      \<and> s ''growthRate'' \<noteq> None \<and> s ''safetyScore'' \<noteq> None)"

definition builder_contract :: "(string \<Rightarrow> stock option) \<Rightarrow> bool" where
  "builder_contract fetch = (\<forall>t s. fetch t = Some s \<longrightarrow> well_formed t s)"

text \<open>The points stored for a ticker, and the point that a record contributes.\<close>

definition entries :: "historical \<Rightarrow> pyvalue \<Rightarrow> stock list" where
  "entries h k = (case h k of Some l \<Rightarrow> l | None \<Rightarrow> [])"

definition point_of :: "string \<Rightarrow> stock \<Rightarrow> stock" where
  "point_of today s =
     history_point today (the (s ''dividendYield'')) (the (s ''price''))
       (the (s ''growthRate'')) (the (s ''safetyScore''))"

text \<open>A number for each ticker symbol, to compare the symbols of the list quickly.\<close>

fun code_of :: "string \<Rightarrow> nat" where
  "code_of [] = 0"
| "code_of (c # cs) = of_char c + 256 * code_of cs"

text \<open>A provider that knows one dividend payer.\<close>

definition ko_stock :: stock where
  "ko_stock = [''ticker'' \<mapsto> VStr ''KO'', ''dividendYield'' \<mapsto> VNum 3, ''price'' \<mapsto> VNum 60,
     ''growthRate'' \<mapsto> VNum 4, ''safetyScore'' \<mapsto> VNum 85]"

definition fetch_ko :: "string \<Rightarrow> stock option" where
  "fetch_ko t = (if t = ''KO'' then Some ko_stock else None)"










definition stock_d :: stock where
  "stock_d = [''ticker'' \<mapsto> VStr ''DDD'', ''exDividendDate'' \<mapsto> VNone]"

definition stock_e :: stock where
  "stock_e = [''ticker'' \<mapsto> VStr ''EEE'', ''exDividendDate'' \<mapsto> VStr ''2024-03-14'']"


definition ex_date_query :: query where
  "ex_date_query = plain_query\<lparr>sort_by := ''exDividendDate''\<rparr>"

section \<open>Properties\<close>

subsection \<open>Safety score\<close>

lemma payout_step_adjustment: "payout_step p s = s + payout_adjustment p"
  by (simp add: payout_step_def payout_adjustment_def)

lemma years_step_adjustment: "years_step y s = s + years_adjustment y"
  by (simp add: years_step_def years_adjustment_def)

lemma growth_step_adjustment: "growth_step g s = s + growth_adjustment g"
  by (simp add: growth_step_def growth_adjustment_def)

lemma yield_step_adjustment: "yield_step d s = s + yield_adjustment d"
  by (simp add: yield_step_def yield_adjustment_def)

lemma clamp_score_max_min: "max 0 (min 100 s) = clamp_score s"
  by (simp add: clamp_score_def)

lemma clamp_score_range: "0 \<le> clamp_score s \<and> clamp_score s \<le> 100"
  by (simp add: clamp_score_def)

text \<open>
  Claim C3. For every payout ratio, number of consecutive years, growth rate and
  dividend yield, the safety score of the code is 50 plus the four bucket adjustments
  of the tables, clamped to the interval from 0 to 100; in particular it always lies
  between 0 and 100.
\<close>

theorem safety_score_tables:
  "calculate_safety_score p y g d = safety_score_spec p y g d
   \<and> 0 \<le> calculate_safety_score p y g d \<and> calculate_safety_score p y g d \<le> 100"
proof -
  have eq: "calculate_safety_score p y g d = safety_score_spec p y g d"
    unfolding calculate_safety_score_def safety_score_spec_def Let_def
    by (simp only: payout_step_adjustment years_step_adjustment growth_step_adjustment
        yield_step_adjustment clamp_score_max_min)
  show ?thesis
    unfolding eq safety_score_spec_def using clamp_score_range by simp
qed

subsection \<open>Rank score\<close>

text \<open>
  Claim C7. For every input, the rank score of the code is the weighted sum
  0.35 yieldScore + 0.25 growthScore + 0.25 safetyScore + 0.15 trackScore with
  yieldScore = min(yield * 1000, 100), growthScore = min(max(growth + 10, 0) * 5, 100)
  and trackScore = min(years * 4, 100); the sum itself is not clamped.
\<close>

theorem rank_score_weighted_sum:
  "calculate_rank_score y g s c = rank_score_spec y g s c"
  by (simp add: calculate_rank_score_def rank_score_spec_def Let_def min_def)

subsection \<open>Consecutive years\<close>

lemma streak_loop_run:
  "sorted_wrt (>) (prev # rest) \<Longrightarrow>
   k \<le> streak_loop prev k rest
   \<and> (\<forall>j. 0 \<le> j \<and> j \<le> streak_loop prev k rest - k \<longrightarrow> prev - j \<in> set (prev # rest))
   \<and> prev - (streak_loop prev k rest - k + 1) \<notin> set (prev # rest)"
proof (induction rest arbitrary: prev k)
  case Nil
  then show ?case by simp
next
  case (Cons y rest)
  show ?case
  proof (cases "prev - y = 1")
    case True
    from Cons.prems have sw: "sorted_wrt (>) (y # rest)" by simp
    note ih = Cons.IH [OF sw, of "k + 1"]
    let ?c = "streak_loop y (k + 1) rest"
    have c: "streak_loop prev k (y # rest) = ?c" using True by simp
    have 1: "k \<le> ?c" using ih by simp
    have 2: "prev - j \<in> set (prev # y # rest)" if "0 \<le> j" "j \<le> ?c - k" for j
    proof (cases "j = 0")
      case True then show ?thesis by simp
    next
      case False
      then have "0 \<le> j - 1 \<and> j - 1 \<le> ?c - (k + 1)" using that by simp
      then have "y - (j - 1) \<in> set (y # rest)" using ih by blast
      moreover have "y - (j - 1) = prev - j" using True by simp
      ultimately show ?thesis by simp
    qed
    have a: "y - (?c - (k + 1) + 1) \<notin> set (y # rest)" using ih by blast
    have b: "y - (?c - (k + 1) + 1) = prev - (?c - k + 1)" using True by simp
    have d: "prev - (?c - k + 1) \<noteq> prev" using 1 by simp
    have e: "prev - (?c - k + 1) \<notin> set (y # rest)" using a unfolding b .
    have 3: "prev - (?c - k + 1) \<notin> set (prev # y # rest)"
      using d e by (simp del: streak_loop.simps)
    show ?thesis unfolding c using 1 2 3 by (intro conjI allI impI) auto
  next
    case False
    have c: "streak_loop prev k (y # rest) = k" using False by simp
    have "\<forall>z \<in> set (y # rest). z < prev - 1"
      using Cons.prems False by auto
    then have "prev - 1 \<notin> set (prev # y # rest)" by auto
    then show ?thesis unfolding c by simp
  qed
qed

lemma years_list_eq:
  "sort (map fst (dividends_by_year ds)) = sorted_list_of_set (payment_years ds)"
proof -
  have "map fst (dividends_by_year ds) = sort (remdups (map (\<lambda>e. year (fst e)) ds))"
    unfolding dividends_by_year_def by (simp add: comp_def)
  then show ?thesis
    by (simp add: sorted_sort_id payment_years_def sorted_list_of_set_sort_remdups
        flip: set_map)
qed

lemma payment_years_finite: "finite (payment_years ds)"
  by (simp add: payment_years_def)

lemma payment_years_nonempty: "ds \<noteq> [] \<Longrightarrow> payment_years ds \<noteq> {}"
  by (simp add: payment_years_def)

lemma rev_sorted_list_of_set_desc:
  "finite A \<Longrightarrow> A \<noteq> {} \<Longrightarrow>
   \<exists>rest. rev (sorted_list_of_set A) = Max A # rest \<and> sorted_wrt (>) (Max A # rest)
      \<and> set (Max A # rest) = A"
proof -
  assume fin: "finite A" and ne: "A \<noteq> {}"
  let ?l = "rev (sorted_list_of_set A)"
  have sw: "sorted_wrt (>) ?l"
    using strict_sorted_list_of_set [of A]
    by (simp add: sorted_wrt_rev)
  have st: "set ?l = A" using fin by simp
  then have "?l \<noteq> []" using ne by auto
  then obtain m rest where l: "?l = m # rest" by (cases ?l) auto
  have "m \<in> A" using st l by auto
  moreover have "\<forall>z\<in>A. z \<le> m" using sw st l by (auto simp: less_imp_le)
  ultimately have "Max A = m" using fin by (intro Max_eqI) auto
  then show ?thesis using l sw st by metis
qed

lemma consecutive_years_run:
  assumes "ds \<noteq> []"
  shows "1 \<le> calculate_consecutive_years ds
    \<and> (\<forall>j. 0 \<le> j \<and> j < calculate_consecutive_years ds \<longrightarrow>
          Max (payment_years ds) - j \<in> payment_years ds)
    \<and> Max (payment_years ds) - calculate_consecutive_years ds \<notin> payment_years ds"
proof -
  let ?Y = "payment_years ds"
  obtain rest where l: "rev (sorted_list_of_set ?Y) = Max ?Y # rest"
    and sw: "sorted_wrt (>) (Max ?Y # rest)" and st: "set (Max ?Y # rest) = ?Y"
    using rev_sorted_list_of_set_desc [OF payment_years_finite payment_years_nonempty [OF assms]]
    by blast
  have c: "calculate_consecutive_years ds = streak_loop (Max ?Y) 1 rest"
    using assms by (simp add: calculate_consecutive_years_def years_list_eq l)
  from streak_loop_run [OF sw, of 1] show ?thesis
    unfolding c st by (auto simp: algebra_simps)
qed

lemma consecutive_years_least: "calculate_consecutive_years ds = consecutive_years_spec ds"
proof (cases "ds = []")
  case True
  then show ?thesis by (simp add: calculate_consecutive_years_def consecutive_years_spec_def)
next
  case False
  let ?Y = "payment_years ds"
  let ?c = "calculate_consecutive_years ds"
  note run = consecutive_years_run [OF False]
  have "(LEAST k. Max ?Y - int k \<notin> ?Y) = nat ?c"
  proof (rule Least_equality)
    show "Max ?Y - int (nat ?c) \<notin> ?Y" using run by simp
  next
    fix k assume k: "Max ?Y - int k \<notin> ?Y"
    show "nat ?c \<le> k"
    proof (rule ccontr)
      assume "\<not> nat ?c \<le> k"
      then have "0 \<le> int k \<and> int k < ?c" by simp
      then have "Max ?Y - int k \<in> ?Y" using run by blast
      then show False using k by simp
    qed
  qed
  then show ?thesis using False run by (simp add: consecutive_years_spec_def)
qed

text \<open>
  Claim C6. For every dividend series, the consecutive-years count of the code is the
  length of the longest run of payment years that starts at the most recent payment
  year and descends by exactly one per step; the years 2024, 2023, 2022, 2020 give 3,
  and an empty series gives 0.
\<close>

theorem consecutive_years_maximal_run:
  "calculate_consecutive_years ds = consecutive_years_spec ds
   \<and> calculate_consecutive_years
        [payment 2020 1, payment 2022 1, payment 2023 1, payment 2024 1] = 3
   \<and> calculate_consecutive_years [] = 0"
proof -
  have "calculate_consecutive_years
          [payment 2020 1, payment 2022 1, payment 2023 1, payment 2024 1] = 3"
    by (simp add: calculate_consecutive_years_def dividends_by_year_def payment_def)
  moreover have "calculate_consecutive_years [] = 0"
    by (simp add: calculate_consecutive_years_def)
  ultimately show ?thesis using consecutive_years_least [of ds] by simp
qed

subsection \<open>Growth rate\<close>











subsection \<open>Stored dividend history\<close>

lemma dividend_history_length: "length (dividend_history ds) = min 400 (length ds)"
  by (simp add: dividend_history_def tail_def)

lemma dividend_history_entries:
  "map (\<lambda>e. (date e, amount e)) (dividend_history ds) = drop (length ds - 400) ds"
  by (simp add: dividend_history_def tail_def comp_def case_prod_beta)

lemma dividend_history_oldest_first:
  assumes "ascending_by_date ds"
  shows "oldest_first (dividend_history ds)"
proof -
  have "sorted_wrt (\<lambda>a b. date_le (fst a) (fst b)) (drop (length ds - 400) ds)"
    using assms unfolding ascending_by_date_def by (rule sorted_wrt_drop)
  then show ?thesis
    by (simp add: oldest_first_def dividend_history_def tail_def sorted_wrt_map case_prod_beta)
qed

lemma dividend_history_most_recent:
  assumes "ascending_by_date ds"
    and "e \<in> set (take (length ds - 400) ds)" and "h \<in> set (dividend_history ds)"
  shows "date_le (fst e) (date h)"
proof -
  let ?k = "length ds - 400"
  have "sorted_wrt (\<lambda>a b. date_le (fst a) (fst b)) (take ?k ds @ drop ?k ds)"
    using assms(1) by (simp add: ascending_by_date_def)
  then have cross: "\<forall>a\<in>set (take ?k ds). \<forall>b\<in>set (drop ?k ds). date_le (fst a) (fst b)"
    unfolding sorted_wrt_append by blast
  obtain b where b: "b \<in> set (drop ?k ds)" and h: "h = \<lparr>date = fst b, amount = snd b\<rparr>"
    using assms(3) by (auto simp: dividend_history_def tail_def)
  show ?thesis using cross assms(2) b h by simp
qed

text \<open>
  Claim C4, as stated: the stored history is most recent first. It fails on a series
  of two payments in ascending date order: the stored history keeps that order, the
  older payment first.
\<close>

theorem stored_order_counterexample:
  "ascending_by_date [payment 2023 1, payment 2024 2]
   \<and> \<not> most_recent_first (dividend_history [payment 2023 1, payment 2024 2])"
  by (simp add: ascending_by_date_def most_recent_first_def dividend_history_def tail_def
      payment_def date_le_def)

text \<open>
  Claim C4, amended. For every fetched dividend series, the stored dividendHistory
  holds the last min(400, n) entries of the series, in the order of the series. For a
  series in ascending date order these are the most recent events (no dropped event is
  later than a stored one), stored oldest first.
\<close>

theorem dividend_history_series_order:
  "length (dividend_history ds) = min 400 (length ds)
   \<and> map (\<lambda>e. (date e, amount e)) (dividend_history ds) = drop (length ds - 400) ds
   \<and> (ascending_by_date ds \<longrightarrow>
        oldest_first (dividend_history ds)
        \<and> (\<forall>e\<in>set (take (length ds - 400) ds). \<forall>h\<in>set (dividend_history ds).
              date_le (fst e) (date h)))"
  using dividend_history_length dividend_history_entries dividend_history_oldest_first
    dividend_history_most_recent by blast

lemma sorted_wrt_replicate_refl: "P x x \<Longrightarrow> sorted_wrt P (replicate n x)"
  by (induction n) auto

lemma ascending_401:
  "ascending_by_date (payment 2023 5 # replicate 400 (payment 2024 1))"
  by (simp add: ascending_by_date_def sorted_wrt_replicate_refl payment_def date_le_def)

theorem dividend_history_series_order_witness:
  "ascending_by_date (payment 2023 5 # replicate 400 (payment 2024 1))
   \<and> dividend_history (payment 2023 5 # replicate 400 (payment 2024 1))
       = replicate 400 \<lparr>date = \<lparr>year = 2024, month = 1, day = 1\<rparr>, amount = 1\<rparr>
   \<and> oldest_first (dividend_history (payment 2023 5 # replicate 400 (payment 2024 1)))
   \<and> date_le (fst (payment 2023 5)) \<lparr>year = 2024, month = 1, day = 1\<rparr>"
proof -
  let ?ds = "payment 2023 5 # replicate 400 (payment 2024 1)"
  have h: "dividend_history ?ds
      = replicate 400 \<lparr>date = \<lparr>year = 2024, month = 1, day = 1\<rparr>, amount = 1\<rparr>"
    by (simp add: dividend_history_def tail_def payment_def)
  have t: "payment 2023 5 \<in> set (take (length ?ds - 400) ?ds)" by simp
  have m: "\<lparr>date = \<lparr>year = 2024, month = 1, day = 1\<rparr>, amount = 1\<rparr> \<in> set (dividend_history ?ds)"
    unfolding h by simp
  from dividend_history_series_order [of ?ds] ascending_401
  have o: "oldest_first (dividend_history ?ds)"
    and b: "\<forall>e\<in>set (take (length ?ds - 400) ?ds). \<forall>h\<in>set (dividend_history ?ds).
              date_le (fst e) (date h)"
    by blast+
  from b t m
  have "date_le (fst (payment 2023 5)) (date \<lparr>date = \<lparr>year = 2024, month = 1, day = 1\<rparr>, amount = 1\<rparr>)"
    by blast
  then have d: "date_le (fst (payment 2023 5)) \<lparr>year = 2024, month = 1, day = 1\<rparr>" by simp
  show ?thesis using ascending_401 h o d by (intro conjI)
qed

subsection \<open>Read path: absent, stale and usable snapshots\<close>


lemma load_cached_snapshot_usable:
  "usable now st \<longleftrightarrow> (\<exists>snap. load_cached_snapshot now st = Some snap \<and> snapshot_file st = Some snap)"
  by (auto simp: load_cached_snapshot_def usable_def split: option.splits)


lemma usable_reply:
  "load_cached_snapshot t_load st = Some snap \<Longrightarrow>
   get_dividend_stocks t_load t_reply st force_refresh q =
     (map_sum id Some (apply_filters_and_sort t_reply (stocks snap) q),
      if force_refresh then [RefreshDataBackground] else [])"
  by (simp add: get_dividend_stocks_def)

lemma then_do_Inr: "then_do m f = Inr r \<longleftrightarrow> (\<exists>x. m = Inr x \<and> f x = Inr r)"
  by (cases m) (simp_all add: then_do_def)

lemma apply_filters_and_sort_fetchedAt:
  "apply_filters_and_sort now xs q = Inr r \<Longrightarrow> resp_fetchedAt r = Some now"
  by (auto simp: apply_filters_and_sort_def Let_def then_do_Inr)






text \<open>
  Claim C10. A response served from the cached snapshot reports as fetchedAt the
  reading of the clock when the query is answered, not the fetchedAt stored in the
  snapshot: two queries against the same store answered at different times report
  different fetchedAt values.
\<close>

theorem response_fetchedAt_is_query_time:
  assumes "usable t_load st"
    and "fst (get_dividend_stocks t_load t_reply st force_refresh q) = Inr (Some r)"
    and "usable t_load' st"
    and "fst (get_dividend_stocks t_load' t_reply' st force_refresh' q') = Inr (Some r')"
  shows "resp_fetchedAt r = Some t_reply \<and> resp_fetchedAt r' = Some t_reply'
       \<and> (t_reply \<noteq> t_reply' \<longrightarrow> resp_fetchedAt r \<noteq> resp_fetchedAt r')"
proof -
  have one: "resp_fetchedAt r = Some t_reply"
    if u: "usable t_load st"
      and g: "fst (get_dividend_stocks t_load t_reply st force_refresh q) = Inr (Some r)"
    for t_load t_reply force_refresh q r
  proof -
    obtain snap where "load_cached_snapshot t_load st = Some snap"
      using u unfolding load_cached_snapshot_usable by blast
    then have "map_sum id Some (apply_filters_and_sort t_reply (stocks snap) q) = Inr (Some r)"
      using g by (simp add: usable_reply)
    then have "apply_filters_and_sort t_reply (stocks snap) q = Inr r"
      by (cases "apply_filters_and_sort t_reply (stocks snap) q") auto
    then show ?thesis by (rule apply_filters_and_sort_fetchedAt)
  qed
  show ?thesis using one [OF assms(1,2)] one [OF assms(3,4)] by simp
qed

lemma day_old_reply:
  "get_dividend_stocks t t' day_old_store False plain_query =
     (if t - 1000 < hours24
      then (Inr (Some \<lparr>resp_stocks = [], resp_total = 0, resp_fetchedAt = Some t',
                      resp_status = None\<rparr>), [])
      else (Inr (Some needs_initialization), []))"
  by (simp add: get_dividend_stocks_def load_cached_snapshot_def day_old_store_def
      apply_filters_and_sort_def apply_filters_def then_do_def filter_category_def
      filter_min_yield_def filter_max_yield_def filter_min_safety_def filter_sector_def
      plain_query_def list_sort_def stable_sort_def slice_to_def)

theorem response_fetchedAt_is_query_time_witness:
  "usable 5000 day_old_store \<and> usable 7000 day_old_store
   \<and> fst (get_dividend_stocks 5000 5001 day_old_store False plain_query)
       = Inr (Some \<lparr>resp_stocks = [], resp_total = 0, resp_fetchedAt = Some 5001,
                    resp_status = None\<rparr>)
   \<and> fst (get_dividend_stocks 7000 7001 day_old_store False plain_query)
       = Inr (Some \<lparr>resp_stocks = [], resp_total = 0, resp_fetchedAt = Some 7001,
                    resp_status = None\<rparr>)
   \<and> Some (5001 :: int) \<noteq> Some 7001
   \<and> fetchedAt (the (snapshot_file day_old_store)) = 1000"
proof -
  have u1: "usable 5000 day_old_store" and u2: "usable 7000 day_old_store"
    by (simp_all add: usable_def day_old_store_def hours24_def)
  have r1: "fst (get_dividend_stocks 5000 5001 day_old_store False plain_query)
       = Inr (Some \<lparr>resp_stocks = [], resp_total = 0, resp_fetchedAt = Some 5001,
                    resp_status = None\<rparr>)"
    by (simp add: day_old_reply hours24_def)
  have r2: "fst (get_dividend_stocks 7000 7001 day_old_store False plain_query)
       = Inr (Some \<lparr>resp_stocks = [], resp_total = 0, resp_fetchedAt = Some 7001,
                    resp_status = None\<rparr>)"
    by (simp add: day_old_reply hours24_def)
  have f: "fetchedAt (the (snapshot_file day_old_store)) = 1000"
    by (simp add: day_old_store_def)
  from response_fetchedAt_is_query_time [OF u1 r1 u2 r2] u1 u2 r1 r2 f show ?thesis by simp
qed

subsection \<open>Refresh: commit only a non-empty result\<close>

lemma SP500_TICKERS_distinct: "distinct SP500_TICKERS"
proof -
  have "distinct (map code_of SP500_TICKERS)"
    unfolding SP500_TICKERS_def by simp
  then show ?thesis by (simp only: distinct_map)
qed

lemma map_filter_append: "List.map_filter f (xs @ ys) = List.map_filter f xs @ List.map_filter f ys"
  by (simp add: List.map_filter_def)

lemma map_filter_map_id: "List.map_filter (\<lambda>r. r) (map f xs) = List.map_filter f xs"
  by (induction xs) (simp_all split: option.splits)

lemma fetch_batches_eq:
  "fetch_batches fetch tickers i acc = acc @ List.map_filter fetch (drop i tickers)"
proof (induction fetch tickers i acc rule: fetch_batches.induct)
  case (1 fetch tickers i all_stocks)
  show ?case
  proof (cases "i < length tickers")
    case True
    have split: "drop i tickers = take batch_size (drop i tickers) @ drop (i + batch_size) tickers"
      by (metis add.commute append_take_drop_id drop_drop)
    have mf: "List.map_filter fetch (drop i tickers) =
        List.map_filter fetch (take batch_size (drop i tickers))
        @ List.map_filter fetch (drop (i + batch_size) tickers)"
      using arg_cong [OF split, of "List.map_filter fetch"] by (simp only: map_filter_append)
    have "fetch_batches fetch tickers i all_stocks =
        fetch_batches fetch tickers (i + batch_size)
          (all_stocks @ List.map_filter fetch (take batch_size (drop i tickers)))"
      using True by (subst fetch_batches.simps) (simp add: Let_def map_filter_map_id)
    also have "\<dots> = (all_stocks @ List.map_filter fetch (take batch_size (drop i tickers)))
        @ List.map_filter fetch (drop (i + batch_size) tickers)"
      using "1.IH" [OF True refl refl refl] by (simp add: map_filter_map_id)
    also have "\<dots> = all_stocks @ List.map_filter fetch (drop i tickers)"
      using mf by simp
    finally show ?thesis .
  next
    case False
    then show ?thesis by (subst fetch_batches.simps) (simp add: List.map_filter_def)
  qed
qed

lemma all_stocks_eq: "fetch_batches fetch tickers 0 [] = List.map_filter fetch tickers"
  by (simp add: fetch_batches_eq)

lemma append_points_step:
  assumes "well_formed t s"
  shows "append_points today (s # rest) h =
     append_points today rest (h(VStr t \<mapsto> tail 30 (entries h (VStr t) @ [point_of today s])))"
proof -
  obtain y p g sc where k: "s ''ticker'' = Some (VStr t)" "s ''dividendYield'' = Some y"
    "s ''price'' = Some p" "s ''growthRate'' = Some g" "s ''safetyScore'' = Some sc"
    using assms by (auto simp: well_formed_def)
  show ?thesis
    by (cases "h (VStr t)") (simp_all add: k Let_def entries_def point_of_def)
qed

lemma append_points_distinct:
  assumes "list_all2 well_formed ts ss" and "distinct ts"
  shows "\<exists>h'. append_points today ss h = Inr h'
     \<and> (\<forall>(t, s)\<in>set (zip ts ss).
           h' (VStr t) = Some (tail 30 (entries h (VStr t) @ [point_of today s])))
     \<and> (\<forall>k. k \<notin> VStr ` set ts \<longrightarrow> h' k = h k)"
  using assms
proof (induction ts ss arbitrary: h rule: list_all2_induct)
  case Nil
  then show ?case by simp
next
  case (Cons t ts s ss)
  let ?h1 = "h(VStr t \<mapsto> tail 30 (entries h (VStr t) @ [point_of today s]))"
  from Cons.prems have d: "distinct ts" and nt: "t \<notin> set ts" by simp_all
  obtain h' where h': "append_points today ss ?h1 = Inr h'"
    and cov: "\<forall>(t', s')\<in>set (zip ts ss).
           h' (VStr t') = Some (tail 30 (entries ?h1 (VStr t') @ [point_of today s']))"
    and unc: "\<forall>k. k \<notin> VStr ` set ts \<longrightarrow> h' k = ?h1 k"
    using Cons.IH [OF d, of ?h1] by blast
  have 1: "append_points today (s # ss) h = Inr h'"
    using append_points_step [OF Cons.hyps(1)] h' by simp
  have 2: "h' (VStr t) = Some (tail 30 (entries h (VStr t) @ [point_of today s]))"
    using unc nt by auto
  have 3: "h' (VStr t') = Some (tail 30 (entries h (VStr t') @ [point_of today s']))"
    if "(t', s') \<in> set (zip ts ss)" for t' s'
  proof -
    have "t' \<in> set ts" using that by (rule set_zip_leftD)
    then have "t' \<noteq> t" using nt by auto
    then have "entries ?h1 (VStr t') = entries h (VStr t')" by (simp add: entries_def)
    then show ?thesis using cov that by auto
  qed
  have 4: "h' k = h k" if "k \<notin> VStr ` set (t # ts)" for k
    using unc that by auto
  show ?case using 1 2 3 4 by auto
qed

lemma map_filter_well_formed:
  "builder_contract fetch \<Longrightarrow>
   list_all2 well_formed (filter (\<lambda>t. fetch t \<noteq> None) xs) (List.map_filter fetch xs)"
  by (induction xs) (auto simp: builder_contract_def split: option.splits)

lemma zip_filter_map_filter:
  "(t, s) \<in> set (zip (filter (\<lambda>t. fetch t \<noteq> None) xs) (List.map_filter fetch xs))
   \<longleftrightarrow> t \<in> set xs \<and> fetch t = Some s"
  by (induction xs) (auto split: option.splits)

lemma load_historical_data_saved [simp]:
  "load_historical_data (save_historical_data h st) = h"
  by (simp add: load_historical_data_def save_historical_data_def)

lemma load_historical_data_snapshot [simp]:
  "load_historical_data (st\<lparr>snapshot_file := x\<rparr>) = load_historical_data st"
  by (simp add: load_historical_data_def)

text \<open>
  Claim C1. A refresh run that aggregates no record commits nothing: the store (the
  snapshot file and the historical file) is left as it was. A run that aggregates at
  least one record replaces the snapshot by the aggregated list and appends one point
  to the history of every covered ticker (the history is then cut to its last 30
  points); the histories of all other tickers are unchanged. The builder is any
  function that keeps the contract of \<^verbatim>\<open>calculate_dividend_metrics\<close>.
\<close>

theorem refresh_commits_iff_nonempty:
  assumes "builder_contract fetch"
  shows "(fetch_batches fetch SP500_TICKERS 0 [] = [] \<longrightarrow>
            refresh_data_background fetch now today st = Inr st)
       \<and> (fetch_batches fetch SP500_TICKERS 0 [] \<noteq> [] \<longrightarrow>
            (\<exists>st'. refresh_data_background fetch now today st = Inr st'
               \<and> snapshot_file st'
                   = Some \<lparr>fetchedAt = now, stocks = fetch_batches fetch SP500_TICKERS 0 []\<rparr>
               \<and> (\<forall>t s. t \<in> set SP500_TICKERS \<and> fetch t = Some s \<longrightarrow>
                     load_historical_data st' (VStr t)
                       = Some (tail 30 (entries (load_historical_data st) (VStr t)
                                        @ [point_of today s])))
               \<and> (\<forall>k. k \<notin> VStr ` {t \<in> set SP500_TICKERS. fetch t \<noteq> None} \<longrightarrow>
                     load_historical_data st' k = load_historical_data st k)))"
proof (intro conjI impI)
  assume "fetch_batches fetch SP500_TICKERS 0 [] = []"
  then show "refresh_data_background fetch now today st = Inr st"
    by (simp add: refresh_data_background_def)
next
  let ?all = "fetch_batches fetch SP500_TICKERS 0 []"
  let ?ts = "filter (\<lambda>t. fetch t \<noteq> None) SP500_TICKERS"
  let ?h = "load_historical_data st"
  let ?st1 = "st\<lparr>snapshot_file := Some \<lparr>fetchedAt = now, stocks = ?all\<rparr>\<rparr>"
  assume ne: "?all \<noteq> []"
  have all: "?all = List.map_filter fetch SP500_TICKERS" by (rule all_stocks_eq)
  have wf: "list_all2 well_formed ?ts ?all"
    unfolding all using assms by (rule map_filter_well_formed)
  have d: "distinct ?ts" using SP500_TICKERS_distinct by simp
  obtain h' where h': "append_points today ?all ?h = Inr h'"
    and cov: "\<forall>(t, s)\<in>set (zip ?ts ?all).
           h' (VStr t) = Some (tail 30 (entries ?h (VStr t) @ [point_of today s]))"
    and unc: "\<forall>k. k \<notin> VStr ` set ?ts \<longrightarrow> h' k = ?h k"
    using append_points_distinct [OF wf d, of today ?h] by blast
  let ?st' = "save_historical_data h' ?st1"
  have r: "refresh_data_background fetch now today st = Inr ?st'"
    using ne h' by (simp add: refresh_data_background_def save_snapshot_def Let_def)
  have s: "snapshot_file ?st' = Some \<lparr>fetchedAt = now, stocks = ?all\<rparr>"
    by (simp add: save_historical_data_def)
  have c: "load_historical_data ?st' (VStr t)
      = Some (tail 30 (entries ?h (VStr t) @ [point_of today s]))"
    if "t \<in> set SP500_TICKERS \<and> fetch t = Some s" for t s
  proof -
    have "(t, s) \<in> set (zip ?ts ?all)"
      unfolding all zip_filter_map_filter using that .
    then show ?thesis using cov by auto
  qed
  have u: "load_historical_data ?st' k = ?h k"
    if "k \<notin> VStr ` {t \<in> set SP500_TICKERS. fetch t \<noteq> None}" for k
    using unc that by simp
  show "\<exists>st'. refresh_data_background fetch now today st = Inr st'
      \<and> snapshot_file st' = Some \<lparr>fetchedAt = now, stocks = ?all\<rparr>
      \<and> (\<forall>t s. t \<in> set SP500_TICKERS \<and> fetch t = Some s \<longrightarrow>
            load_historical_data st' (VStr t)
              = Some (tail 30 (entries ?h (VStr t) @ [point_of today s])))
      \<and> (\<forall>k. k \<notin> VStr ` {t \<in> set SP500_TICKERS. fetch t \<noteq> None} \<longrightarrow>
            load_historical_data st' k = ?h k)"
    using r s c u by blast
qed

lemma map_filter_none: "List.map_filter (\<lambda>t. None) xs = []"
  by (induction xs) simp_all

lemma map_filter_single:
  "distinct xs \<Longrightarrow> x \<in> set xs \<Longrightarrow>
   List.map_filter (\<lambda>t. if t = x then Some v else None) xs = [v]"
proof (induction xs)
  case Nil
  then show ?case by simp
next
  case (Cons a xs)
  show ?case
  proof (cases "a = x")
    case True
    then have "x \<notin> set xs" using Cons.prems by simp
    then have "List.map_filter (\<lambda>t. if t = x then Some v else None) xs = []"
      by (induction xs) auto
    then show ?thesis using True by simp
  next
    case False
    then show ?thesis using Cons by simp
  qed
qed

lemma KO_listed: "''KO'' \<in> set SP500_TICKERS"
  unfolding SP500_TICKERS_def by simp

theorem refresh_commits_iff_nonempty_witness:
  "builder_contract (\<lambda>t. None) \<and> builder_contract fetch_ko
   \<and> fetch_batches (\<lambda>t. None) SP500_TICKERS 0 [] = []
   \<and> refresh_data_background (\<lambda>t. None) 1000 ''2024-05-01'' old_store = Inr old_store
   \<and> fetch_batches fetch_ko SP500_TICKERS 0 [] = [ko_stock]
   \<and> (\<exists>st'. refresh_data_background fetch_ko 1000 ''2024-05-01'' old_store = Inr st'
         \<and> snapshot_file st' = Some \<lparr>fetchedAt = 1000, stocks = [ko_stock]\<rparr>
         \<and> load_historical_data st' (VStr ''KO'')
             = Some [history_point ''2024-05-01'' (VNum 3) (VNum 60) (VNum 4) (VNum 85)])"
proof -
  have c0: "builder_contract (\<lambda>t. None)" by (simp add: builder_contract_def)
  have c1: "builder_contract fetch_ko"
    by (simp add: builder_contract_def fetch_ko_def well_formed_def ko_stock_def)
  have e: "fetch_batches (\<lambda>t. None) SP500_TICKERS 0 [] = []"
    by (simp add: all_stocks_eq map_filter_none)
  have k: "fetch_batches fetch_ko SP500_TICKERS 0 [] = [ko_stock]"
    unfolding all_stocks_eq
    using map_filter_single [OF SP500_TICKERS_distinct KO_listed, of ko_stock]
    by (simp add: fetch_ko_def [abs_def])
  have f: "fetch_ko ''KO'' = Some ko_stock" by (simp add: fetch_ko_def)
  have p: "tail 30 (entries (load_historical_data old_store) (VStr ''KO'')
                     @ [point_of ''2024-05-01'' ko_stock])
      = [history_point ''2024-05-01'' (VNum 3) (VNum 60) (VNum 4) (VNum 85)]"
    by (simp add: tail_def entries_def load_historical_data_def old_store_def point_of_def
        ko_stock_def)
  from refresh_commits_iff_nonempty [OF c0, of 1000 "''2024-05-01''" old_store] e
  have n: "refresh_data_background (\<lambda>t. None) 1000 ''2024-05-01'' old_store = Inr old_store"
    by blast
  from refresh_commits_iff_nonempty [OF c1, of 1000 "''2024-05-01''" old_store] k
  obtain st' where
    r: "refresh_data_background fetch_ko 1000 ''2024-05-01'' old_store = Inr st'"
    and s: "snapshot_file st' = Some \<lparr>fetchedAt = 1000, stocks = [ko_stock]\<rparr>"
    and h: "\<forall>t s. t \<in> set SP500_TICKERS \<and> fetch_ko t = Some s \<longrightarrow>
          load_historical_data st' (VStr t)
            = Some (tail 30 (entries (load_historical_data old_store) (VStr t)
                             @ [point_of ''2024-05-01'' s]))"
    by auto
  have "load_historical_data st' (VStr ''KO'')
      = Some [history_point ''2024-05-01'' (VNum 3) (VNum 60) (VNum 4) (VNum 85)]"
    using h KO_listed f p by metis
  then show ?thesis using c0 c1 e n k r s by blast
qed

subsection \<open>Sorting a response\<close>








lemma no_filters: "apply_filters xs (plain_query\<lparr>sort_by := f\<rparr>) = Inr xs"
  by (simp add: apply_filters_def then_do_def filter_category_def filter_min_yield_def
      filter_max_yield_def filter_min_safety_def filter_sector_def plain_query_def)






text \<open>
  When the keys are of both kinds the sort raises: a record whose ex-dividend date is
  \<^verbatim>\<open>None\<close> has the key 0, a record with a date has a string key.
\<close>

lemma ex_date_keys:
  "key_of ''exDividendDate'' stock_d = KNum 0"
  "key_of ''exDividendDate'' stock_e = KStr ''2024-03-14''"
  by (simp_all add: key_of_def stock_d_def stock_e_def)

lemma sort_mixed_keys_raises:
  "apply_filters_and_sort 0 [stock_d, stock_e] ex_date_query = Inl TypeError"
  by (simp add: apply_filters_and_sort_def ex_date_query_def no_filters then_do_def
      list_sort_def ex_date_keys)

end
